theory Spec2Isabelle
  imports Complex_Main "HOL-Library.Sublist"
begin

section \<open>The GitHub synchronisation controller of \<^verbatim>\<open>src/github_sync.py\<close>\<close>

text \<open>
  The class \<^verbatim>\<open>GitHubSync\<close> keeps a run counter, persists it in the local file
  \<^verbatim>\<open>.github_run_count\<close>, and turns its public operations into requests to a client
  of the hosting platform. The embedding below follows the source method by method.

  \<^item> Python integers are \<open>int\<close>. Python floats are IEEE 754 doubles: a finite double
    is the rational it denotes, every operation rounds its exact result to the nearest
    double, ties to even, and the infinities, not-a-number and the negative zero are
    values of their own.
  \<^item> Python strings are modelled by their UTF-8 bytes, so the literals of the source that
    are not ASCII appear as byte lists.
  \<^item> An exception is a value: every action returns \<open>exn + 'a\<close> together with the state
    it leaves behind, and \<open>Inl e\<close> is the exception \<open>e\<close> leaving the method.
  \<^item> The client library is not part of the source. It is a parameter: a record of
    responders, one for each client method the source calls, each answering from the
    requests issued so far and the arguments of the call. The answer \<open>None\<close> is the
    client raising \<^verbatim>\<open>GithubException\<close>, the exception the source imports from the
    library and catches. Every request is recorded in the state, in order, as a
    recording test double would.
  \<^item> The clock is a parameter: each operation receives the text that its one call of
    \<^verbatim>\<open>datetime.now()\<close> renders.
  \<^item> The constructor is outside the model: \<open>initial_state\<close> below is the state it leaves
    with its default arguments when no counter file exists. Writing the counter file is
    taken to succeed.
  \<^item> Log lines are not modelled.
\<close>

subsection \<open>Exceptions\<close>

datatype exn =
    GithubException | ZeroDivisionError | ValueError | TypeError | OverflowError
  | UnicodeDecodeError

subsection \<open>Rendering numbers\<close>

definition digit_char :: "nat \<Rightarrow> char" where
  "digit_char d = ''0123456789'' ! d"

fun str_nat :: "nat \<Rightarrow> string" where
  "str_nat n = (if n < 10 then [digit_char n] else str_nat (n div 10) @ [digit_char (n mod 10)])"

declare str_nat.simps [simp del]

text \<open>\<^verbatim>\<open>str(i)\<close> of a Python integer.\<close>

definition str_int :: "int \<Rightarrow> string" where
  "str_int i = (if i < 0 then CHR ''-'' # str_nat (nat (- i)) else str_nat (nat i))"

definition round_half_even :: "rat \<Rightarrow> int" where
  "round_half_even x =
     (if x - of_int \<lfloor>x\<rfloor> < 1 / 2 then \<lfloor>x\<rfloor>
      else if 1 / 2 < x - of_int \<lfloor>x\<rfloor> then \<lfloor>x\<rfloor> + 1
      else if even \<lfloor>x\<rfloor> then \<lfloor>x\<rfloor> else \<lfloor>x\<rfloor> + 1)"

definition zero_pad :: "nat \<Rightarrow> string \<Rightarrow> string" where
  "zero_pad d t = replicate (d - length t) CHR ''0'' @ t"

text \<open>
  Fixed-point rendering with \<open>d\<close> digits after the point, \<open>d\<close> at least one: the exact
  value rounded to the nearest, ties to even.
\<close>

definition format_f :: "nat \<Rightarrow> rat \<Rightarrow> string" where
  "format_f d x =
     (if x < 0 then ''-'' else '''') @
     str_nat (nat (round_half_even (\<bar>x\<bar> * 10 ^ d) div 10 ^ d)) @ ''.'' @
     zero_pad d (str_nat (nat (round_half_even (\<bar>x\<bar> * 10 ^ d) mod 10 ^ d)))"

subsection \<open>Python floats\<close>

text \<open>
  \<open>Finite q\<close> is the double of value \<open>q\<close>, and \<open>Finite 0\<close> is the positive zero.
\<close>

datatype pyfloat = Finite rat | NegZero | PosInf | NegInf | NaN

fun bit_length :: "nat \<Rightarrow> nat" where
  "bit_length n = (if n = 0 then 0 else Suc (bit_length (n div 2)))"

declare bit_length.simps [simp del]

definition pow2 :: "int \<Rightarrow> rat" where
  "pow2 e = (if 0 \<le> e then 2 ^ nat e else 1 / 2 ^ nat (- e))"

text \<open>The exponent \<open>e\<close> with \<open>2 ^ e \<le> a < 2 ^ (e + 1)\<close>, for a positive \<open>a\<close>.\<close>

definition floor_log2 :: "rat \<Rightarrow> int" where
  "floor_log2 a =
     (if 1 \<le> a then int (bit_length (nat \<lfloor>a\<rfloor>)) - 1
      else - int (bit_length (nat (\<lceil>1 / a\<rceil> - 1))))"

text \<open>
  Rounding to the nearest double, ties to even: 53 bits of precision, the exponent not
  below that of the subnormal numbers, and an infinity from \<open>2 ^ 1024\<close> on. It also is
  the value of a decimal literal of the source.
\<close>

definition round_to_double :: "rat \<Rightarrow> pyfloat" where
  "round_to_double x =
     (if x = 0 then Finite 0
      else
        let ulp = pow2 (max (floor_log2 \<bar>x\<bar>) (- 1022) - 52);
            r = of_int (round_half_even (\<bar>x\<bar> / ulp)) * ulp
        in if pow2 1024 \<le> r then (if 0 < x then PosInf else NegInf)
           else if r = 0 then (if 0 < x then Finite 0 else NegZero)
           else Finite (if 0 < x then r else - r))"

fun value_of :: "pyfloat \<Rightarrow> rat" where
  "value_of (Finite q) = q"
| "value_of NegZero = 0"
| "value_of PosInf = 0"
| "value_of NegInf = 0"
| "value_of NaN = 0"

fun sign_bit :: "pyfloat \<Rightarrow> bool" where
  "sign_bit (Finite q) = (q < 0)"
| "sign_bit NegZero = True"
| "sign_bit NegInf = True"
| "sign_bit PosInf = False"
| "sign_bit NaN = False"

definition is_zero :: "pyfloat \<Rightarrow> bool" where
  "is_zero x = (x = Finite 0 \<or> x = NegZero)"

definition is_inf :: "pyfloat \<Rightarrow> bool" where
  "is_inf x = (x = PosInf \<or> x = NegInf)"

definition signed_zero :: "bool \<Rightarrow> pyfloat" where
  "signed_zero negative = (if negative then NegZero else Finite 0)"

definition signed_inf :: "bool \<Rightarrow> pyfloat" where
  "signed_inf negative = (if negative then NegInf else PosInf)"

text \<open>\<^verbatim>\<open>a - b\<close>.\<close>

definition float_sub :: "pyfloat \<Rightarrow> pyfloat \<Rightarrow> pyfloat" where
  "float_sub a b =
     (if a = NaN \<or> b = NaN then NaN
      else if a = PosInf then (if b = PosInf then NaN else PosInf)
      else if a = NegInf then (if b = NegInf then NaN else NegInf)
      else if b = PosInf then NegInf
      else if b = NegInf then PosInf
      else if value_of a = value_of b
        then (if a = NegZero \<and> b = Finite 0 then NegZero else Finite 0)
      else round_to_double (value_of a - value_of b))"

text \<open>\<^verbatim>\<open>a * b\<close>.\<close>

definition float_mul :: "pyfloat \<Rightarrow> pyfloat \<Rightarrow> pyfloat" where
  "float_mul a b =
     (if a = NaN \<or> b = NaN then NaN
      else if is_inf a \<or> is_inf b
        then (if is_zero a \<or> is_zero b then NaN else signed_inf (sign_bit a \<noteq> sign_bit b))
      else if is_zero a \<or> is_zero b then signed_zero (sign_bit a \<noteq> sign_bit b)
      else round_to_double (value_of a * value_of b))"

text \<open>The quotient of IEEE 754 for a divisor that is not zero.\<close>

definition float_div :: "pyfloat \<Rightarrow> pyfloat \<Rightarrow> pyfloat" where
  "float_div a b =
     (if a = NaN \<or> b = NaN then NaN
      else if is_inf a then (if is_inf b then NaN else signed_inf (sign_bit a \<noteq> sign_bit b))
      else if is_inf b then signed_zero (sign_bit a \<noteq> sign_bit b)
      else if is_zero a then signed_zero (sign_bit a \<noteq> sign_bit b)
      else round_to_double (value_of a / value_of b))"

text \<open>\<^verbatim>\<open>a / b\<close>: Python raises for a divisor that is zero, of either sign.\<close>

definition float_truediv :: "pyfloat \<Rightarrow> pyfloat \<Rightarrow> exn + pyfloat" where
  "float_truediv a b = (if is_zero b then Inl ZeroDivisionError else Inr (float_div a b))"

text \<open>\<^verbatim>\<open>a >= b\<close>: false whenever an operand is not a number.\<close>

definition float_ge :: "pyfloat \<Rightarrow> pyfloat \<Rightarrow> bool" where
  "float_ge a b =
     (if a = NaN \<or> b = NaN then False
      else if a = PosInf then True
      else if b = NegInf then True
      else if a = NegInf then False
      else if b = PosInf then False
      else value_of a \<ge> value_of b)"

text \<open>The format specification \<^verbatim>\<open>{x:.df}\<close> of a float.\<close>

fun float_format :: "nat \<Rightarrow> pyfloat \<Rightarrow> string" where
  "float_format d (Finite q) = format_f d q"
| "float_format d NegZero = ''-'' @ format_f d 0"
| "float_format d PosInf = ''inf''"
| "float_format d NegInf = ''-inf''"
| "float_format d NaN = ''nan''"

subsection \<open>Metric values and the Python runtime\<close>

text \<open>
  A metrics mapping is a dictionary from strings to values of a type \<open>'v\<close> that the
  controller never inspects. A dictionary is the list of its items in insertion order,
  with distinct keys. What the source does with a value is left to the runtime, which is a
  parameter: \<open>str_of\<close> is the default rendering of a value in an f-string; \<open>format_1f\<close>
  is the rendering under \<^verbatim>\<open>:.1f\<close>, or the error that Python raises for it
  (\<^verbatim>\<open>ValueError\<close> for a string, \<^verbatim>\<open>TypeError\<close> for a value without the format,
  \<^verbatim>\<open>OverflowError\<close> for an integer beyond the doubles); \<open>json_dumps\<close> is
  \<^verbatim>\<open>json.dumps(_, indent=2)\<close> on the two documents the source serialises, which is
  \<open>None\<close> where Python raises \<^verbatim>\<open>TypeError\<close> for a value that JSON cannot hold; and
  \<open>decode_utf8\<close> is \<^verbatim>\<open>bytes.decode('utf-8')\<close>, which is \<open>None\<close> for bytes that are
  not UTF-8, where Python raises \<^verbatim>\<open>UnicodeDecodeError\<close>.
\<close>

type_synonym 'v metrics = "(string \<times> 'v) list"

datatype 'v document =
    ExecutionLog int string "'v metrics" string
  | Results "'v metrics"

datatype format_error = FormatValueError | FormatTypeError | FormatOverflowError

fun format_exn :: "format_error \<Rightarrow> exn" where
  "format_exn FormatValueError = ValueError"
| "format_exn FormatTypeError = TypeError"
| "format_exn FormatOverflowError = OverflowError"

record 'v python =
  str_of :: "'v \<Rightarrow> string"
  format_1f :: "'v \<Rightarrow> format_error + string"
  json_dumps :: "'v document \<Rightarrow> string option"
  decode_utf8 :: "string \<Rightarrow> string option"

text \<open>\<^verbatim>\<open>f"{m.get(k, default)}"\<close>, with the rendering of the default given.\<close>

definition get_str :: "'v python \<Rightarrow> 'v metrics \<Rightarrow> string \<Rightarrow> string \<Rightarrow> string" where
  "get_str py m k dflt = (case map_of m k of None \<Rightarrow> dflt | Some v \<Rightarrow> str_of py v)"

text \<open>\<^verbatim>\<open>f"{m.get(k, 0):.1f}"\<close>.\<close>

definition get_1f :: "'v python \<Rightarrow> 'v metrics \<Rightarrow> string \<Rightarrow> exn + string" where
  "get_1f py m k =
     (case map_of m k of
        None \<Rightarrow> Inr ''0.0''
      | Some v \<Rightarrow> (case format_1f py v of Inl e \<Rightarrow> Inl (format_exn e) | Inr t \<Rightarrow> Inr t))"

text \<open>\<^verbatim>\<open>json.dumps(d, indent=2)\<close>.\<close>

definition dumps :: "'v python \<Rightarrow> 'v document \<Rightarrow> exn + string" where
  "dumps py d = (case json_dumps py d of None \<Rightarrow> Inl TypeError | Some t \<Rightarrow> Inr t)"

text \<open>\<^verbatim>\<open>file.decoded_content.decode('utf-8')\<close>.\<close>

definition decode :: "'v python \<Rightarrow> string \<Rightarrow> exn + string" where
  "decode py bytes =
     (case decode_utf8 py bytes of None \<Rightarrow> Inl UnicodeDecodeError | Some t \<Rightarrow> Inr t)"

subsection \<open>The client of the hosting platform\<close>

datatype call =
    CreateFile string string string string
  | GetContents string string
  | UpdateFile string string string string string
  | CreateIssue string string "string list" "string list"
  | GetBranch string
  | CreateGitRef string string
  | CreatePull string string string string
  | CreateReviewRequest int "string list"

record content_file =
  path :: string
  decoded_content :: string
  sha :: string

record client =
  create_file :: "call list \<Rightarrow> string \<Rightarrow> string \<Rightarrow> string \<Rightarrow> string \<Rightarrow> string option"
  get_contents :: "call list \<Rightarrow> string \<Rightarrow> string \<Rightarrow> content_file option"
  update_file ::
    "call list \<Rightarrow> string \<Rightarrow> string \<Rightarrow> string \<Rightarrow> string \<Rightarrow> string \<Rightarrow> string option"
  create_issue :: "call list \<Rightarrow> string \<Rightarrow> string \<Rightarrow> string list \<Rightarrow> string list \<Rightarrow> int option"
  get_branch :: "call list \<Rightarrow> string \<Rightarrow> string option"
  create_git_ref :: "call list \<Rightarrow> string \<Rightarrow> string \<Rightarrow> unit option"
  create_pull :: "call list \<Rightarrow> string \<Rightarrow> string \<Rightarrow> string \<Rightarrow> string \<Rightarrow> int option"
  create_review_request :: "call list \<Rightarrow> int \<Rightarrow> string list \<Rightarrow> unit option"

subsection \<open>State\<close>

text \<open>
  The attributes of the object, the text of the local counter file (\<open>None\<close> while the
  file does not exist), and the requests issued to the client so far.
\<close>

record state =
  repo_name :: string
  branch :: string
  auto_commit :: bool
  commit_interval :: int
  run_count :: int
  count_file :: "string option"
  calls :: "call list"

type_synonym 'a action = "state \<Rightarrow> (exn + 'a) \<times> state"

definition ret :: "'a \<Rightarrow> 'a action" where
  "ret x s = (Inr x, s)"

text \<open>Sequencing: an exception of the first action skips the rest.\<close>

definition seq :: "'a action \<Rightarrow> ('a \<Rightarrow> 'b action) \<Rightarrow> 'b action" where
  "seq m f s = (case m s of (Inl e, s') \<Rightarrow> (Inl e, s') | (Inr x, s') \<Rightarrow> f x s')"

text \<open>\<^verbatim>\<open>try: m except GithubException: h\<close>.\<close>

definition except_GithubException :: "'a action \<Rightarrow> 'a action \<Rightarrow> 'a action" where
  "except_GithubException m h s =
     (case m s of (Inl GithubException, s') \<Rightarrow> h s' | r \<Rightarrow> r)"

text \<open>\<^verbatim>\<open>try: m except: h\<close>, the handler that catches everything.\<close>

definition except_all :: "'a action \<Rightarrow> 'a action \<Rightarrow> 'a action" where
  "except_all m h s = (case m s of (Inl e, s') \<Rightarrow> h s' | r \<Rightarrow> r)"

text \<open>A lifted pure computation that may raise.\<close>

definition lift :: "exn + 'a \<Rightarrow> 'a action" where
  "lift r s = (r, s)"

text \<open>
  One request to the client: it is recorded, and the responder answers from the
  requests issued before it.
\<close>

definition request :: "call \<Rightarrow> (call list \<Rightarrow> 'a option) \<Rightarrow> 'a action" where
  "request c respond s =
     (case respond (calls s) of
        None \<Rightarrow> (Inl GithubException, s\<lparr>calls := calls s @ [c]\<rparr>)
      | Some v \<Rightarrow> (Inr v, s\<lparr>calls := calls s @ [c]\<rparr>))"

subsection \<open>The run counter\<close>

definition save_run_count :: "state \<Rightarrow> state" where
  "save_run_count s = s\<lparr>count_file := Some (str_int (run_count s))\<rparr>"

definition increment_run :: "int action" where
  "increment_run s =
     (let s1 = s\<lparr>run_count := run_count s + 1\<rparr>;
          s2 = save_run_count s1
      in (Inr (run_count s2), s2))"

text \<open>
  \<^verbatim>\<open>self.auto_commit and (self.run_count % self.commit_interval == 0)\<close>: the
  conjunction evaluates its right operand only when the flag is set, and the remainder
  by zero raises.
\<close>

definition should_commit :: "bool action" where
  "should_commit s =
     (if \<not> auto_commit s then (Inr False, s)
      else if commit_interval s = 0 then (Inl ZeroDivisionError, s)
      else (Inr (run_count s mod commit_interval s = 0), s))"

subsection \<open>Requests of the source to the client\<close>

definition repo_create_file :: "client \<Rightarrow> string \<Rightarrow> string \<Rightarrow> string \<Rightarrow> string \<Rightarrow> string action" where
  "repo_create_file cl p message content b =
     request (CreateFile p message content b) (\<lambda>tr. create_file cl tr p message content b)"

definition repo_get_contents :: "client \<Rightarrow> string \<Rightarrow> string \<Rightarrow> content_file action" where
  "repo_get_contents cl p ref = request (GetContents p ref) (\<lambda>tr. get_contents cl tr p ref)"

definition repo_update_file ::
  "client \<Rightarrow> string \<Rightarrow> string \<Rightarrow> string \<Rightarrow> string \<Rightarrow> string \<Rightarrow> string action" where
  "repo_update_file cl p message content token b =
     request (UpdateFile p message content token b)
       (\<lambda>tr. update_file cl tr p message content token b)"

definition repo_create_issue ::
  "client \<Rightarrow> string \<Rightarrow> string \<Rightarrow> string list \<Rightarrow> string list \<Rightarrow> int action" where
  "repo_create_issue cl title body labels assignees =
     request (CreateIssue title body labels assignees)
       (\<lambda>tr. create_issue cl tr title body labels assignees)"

definition repo_get_branch :: "client \<Rightarrow> string \<Rightarrow> string action" where
  "repo_get_branch cl b = request (GetBranch b) (\<lambda>tr. get_branch cl tr b)"

definition repo_create_git_ref :: "client \<Rightarrow> string \<Rightarrow> string \<Rightarrow> unit action" where
  "repo_create_git_ref cl ref tip = request (CreateGitRef ref tip) (\<lambda>tr. create_git_ref cl tr ref tip)"

definition repo_create_pull :: "client \<Rightarrow> string \<Rightarrow> string \<Rightarrow> string \<Rightarrow> string \<Rightarrow> int action" where
  "repo_create_pull cl title body head base =
     request (CreatePull title body head base) (\<lambda>tr. create_pull cl tr title body head base)"

definition pr_create_review_request :: "client \<Rightarrow> int \<Rightarrow> string list \<Rightarrow> unit action" where
  "pr_create_review_request cl number reviewers =
     request (CreateReviewRequest number reviewers)
       (\<lambda>tr. create_review_request cl tr number reviewers)"

subsection \<open>Literals of the source outside ASCII\<close>

definition bar_chart :: string where
  "bar_chart = [CHR 0xF0, CHR 0x9F, CHR 0x93, CHR 0x8A]"

definition trophy :: string where
  "trophy = [CHR 0xF0, CHR 0x9F, CHR 0x8F, CHR 0x86]"

definition new_button :: string where
  "new_button = [CHR 0xF0, CHR 0x9F, CHR 0x86, CHR 0x95]"

definition warning_sign :: string where
  "warning_sign = [CHR 0xE2, CHR 0x9A, CHR 0xA0, CHR 0xEF, CHR 0xB8, CHR 0x8F]"

definition sparkles :: string where
  "sparkles = [CHR 0xE2, CHR 0x9C, CHR 0xA8]"

definition issue_body_text_1 :: string where
  "issue_body_text_1 =
     ''\<newline>## '' @ [CHR 0xEC, CHR 0x84, CHR 0xB1, CHR 0xEB, CHR 0x8A, CHR 0xA5] @ '' '' @
     [CHR 0xEC, CHR 0xA0, CHR 0x80, CHR 0xED, CHR 0x95, CHR 0x98] @ '' '' @
     [CHR 0xEA, CHR 0xB0, CHR 0x90, CHR 0xEC, CHR 0xA7, CHR 0x80] @ ''\<newline>\<newline>**'' @
     [CHR 0xEA, CHR 0xB8, CHR 0xB0, CHR 0xEC, CHR 0xA4, CHR 0x80] @ '' '' @
     [CHR 0xEC, CHR 0xA0, CHR 0x90, CHR 0xEC, CHR 0x88, CHR 0x98] @ ''**: ''"

definition issue_body_text_2 :: string where
  "issue_body_text_2 =
     ''\<newline>**'' @ [CHR 0xED, CHR 0x98, CHR 0x84, CHR 0xEC, CHR 0x9E, CHR 0xAC] @ '' '' @
     [CHR 0xEC, CHR 0xA0, CHR 0x90, CHR 0xEC, CHR 0x88, CHR 0x98] @ ''**: ''"

definition issue_body_text_3 :: string where
  "issue_body_text_3 =
     ''\<newline>**'' @
     [CHR 0xEC, CHR 0xA0, CHR 0x80, CHR 0xED, CHR 0x95, CHR 0x98, CHR 0xEC, CHR 0x9C, CHR 0xA8] @
     ''**: ''"

definition issue_body_text_4 :: string where
  "issue_body_text_4 =
     ''%\<newline>\<newline>### '' @
     [CHR 0xED, CHR 0x99, CHR 0x95, CHR 0xEC, CHR 0x9D, CHR 0xB8] @ '' '' @
     [CHR 0xED, CHR 0x95, CHR 0x84, CHR 0xEC, CHR 0x9A, CHR 0x94] @ '' '' @
     [CHR 0xEC, CHR 0x82, CHR 0xAC, CHR 0xED, CHR 0x95, CHR 0xAD] @
     ''\<newline>\<newline>1. '' @
     [CHR 0xEC, CHR 0xB5, CHR 0x9C, CHR 0xEA, CHR 0xB7, CHR 0xBC] @ '' '' @
     [CHR 0xED, CHR 0x94, CHR 0x84, CHR 0xEB, CHR 0xA1, CHR 0xAC, CHR 0xED, CHR 0x94, CHR 0x84, CHR 0xED, CHR 0x8A, CHR 0xB8] @
     '' '' @
     [CHR 0xEB, CHR 0xB3, CHR 0x80, CHR 0xEA, CHR 0xB2, CHR 0xBD, CHR 0xEC, CHR 0x82, CHR 0xAC, CHR 0xED, CHR 0x95, CHR 0xAD] @
     '' '' @ [CHR 0xEA, CHR 0xB2, CHR 0x80, CHR 0xED, CHR 0x86, CHR 0xA0] @ ''\<newline>2. '' @
     [CHR 0xEB, CHR 0xB2, CHR 0xA4, CHR 0xEC, CHR 0xB9, CHR 0x98, CHR 0xEB, CHR 0xA7, CHR 0x88, CHR 0xED, CHR 0x81, CHR 0xAC] @
     '' '' @ [CHR 0xEB, CHR 0xA1, CHR 0x9C, CHR 0xEA, CHR 0xB7, CHR 0xB8] @ '' '' @
     [CHR 0xED, CHR 0x99, CHR 0x95, CHR 0xEC, CHR 0x9D, CHR 0xB8] @ ''\<newline>3. '' @
     [CHR 0xED, CHR 0x95, CHR 0x84, CHR 0xEC, CHR 0x9A, CHR 0x94, CHR 0xEC, CHR 0x8B, CHR 0x9C] @
     '' '' @ [CHR 0xEB, CHR 0xA1, CHR 0xA4, CHR 0xEB, CHR 0xB0, CHR 0xB1] @ '' '' @
     [CHR 0xEA, CHR 0xB3, CHR 0xA0, CHR 0xEB, CHR 0xA0, CHR 0xA4] @
     ''\<newline>\<newline>### '' @
     [CHR 0xEC, CHR 0x9E, CHR 0x90, CHR 0xEB, CHR 0x8F, CHR 0x99] @ '' '' @
     [CHR 0xEC, CHR 0xA1, CHR 0xB0, CHR 0xEC, CHR 0xB9, CHR 0x98] @ ''\<newline>\<newline>- '' @
     [CHR 0xEC, CHR 0x8B, CHR 0x9C, CHR 0xEC, CHR 0x8A, CHR 0xA4, CHR 0xED, CHR 0x85, CHR 0x9C, CHR 0xEC, CHR 0x9D, CHR 0x80] @
     '' '' @
     [CHR 0xEC, CHR 0x9E, CHR 0x90, CHR 0xEB, CHR 0x8F, CHR 0x99, CHR 0xEC, CHR 0x9C, CHR 0xBC, CHR 0xEB, CHR 0xA1, CHR 0x9C] @
     '' '' @ [CHR 0xEC, CHR 0x9D, CHR 0xB4, CHR 0xEC, CHR 0xA0, CHR 0x84] @ '' '' @
     [CHR 0xEB, CHR 0xB2, CHR 0x84, CHR 0xEC, CHR 0xA0, CHR 0x84, CHR 0xEC, CHR 0x9C, CHR 0xBC, CHR 0xEB, CHR 0xA1, CHR 0x9C] @
     '' '' @
     [CHR 0xEB, CHR 0xA1, CHR 0xA4, CHR 0xEB, CHR 0xB0, CHR 0xB1, CHR 0xEB, CHR 0x90, CHR 0x98, CHR 0xEC, CHR 0x97, CHR 0x88, CHR 0xEC, CHR 0x8A, CHR 0xB5, CHR 0xEB, CHR 0x8B, CHR 0x88, CHR 0xEB, CHR 0x8B, CHR 0xA4] @
     ''.\<newline>- '' @ [CHR 0xEC, CHR 0x84, CHR 0xB1, CHR 0xEB, CHR 0x8A, CHR 0xA5] @ '' '' @
     [CHR 0xEB, CHR 0xA1, CHR 0x9C, CHR 0xEA, CHR 0xB7, CHR 0xB8] @ '': '' @ [CHR 0x60] @
     ''logs/execution_latest.json'' @ [CHR 0x60] @ ''\<newline>- '' @
     [CHR 0xEB, CHR 0xB2, CHR 0xA4, CHR 0xEC, CHR 0xB9, CHR 0x98, CHR 0xEB, CHR 0xA7, CHR 0x88, CHR 0xED, CHR 0x81, CHR 0xAC] @
     '' '' @ [CHR 0xEA, CHR 0xB2, CHR 0xB0, CHR 0xEA, CHR 0xB3, CHR 0xBC] @ '': '' @
     [CHR 0x60] @ ''benchmarks/results_latest.json'' @ [CHR 0x60] @
     ''\<newline>\<newline>---\<newline>\<newline>*'' @ [CHR 0xEC, CHR 0x9D, CHR 0xB4] @ '' '' @
     [CHR 0xEC, CHR 0x9D, CHR 0xB4, CHR 0xEC, CHR 0x8A, CHR 0x88, CHR 0xEB, CHR 0x8A, CHR 0x94] @
     '' '' @
     [CHR 0xEC, CHR 0x9E, CHR 0x90, CHR 0xEB, CHR 0x8F, CHR 0x99, CHR 0xEC, CHR 0x9C, CHR 0xBC, CHR 0xEB, CHR 0xA1, CHR 0x9C] @
     '' '' @
     [CHR 0xEC, CHR 0x83, CHR 0x9D, CHR 0xEC, CHR 0x84, CHR 0xB1, CHR 0xEB, CHR 0x90, CHR 0x98, CHR 0xEC, CHR 0x97, CHR 0x88, CHR 0xEC, CHR 0x8A, CHR 0xB5, CHR 0xEB, CHR 0x8B, CHR 0x88, CHR 0xEB, CHR 0x8B, CHR 0xA4] @
     ''.*\<newline>        ''"

definition pull_body_text_1 :: string where
  "pull_body_text_1 =
     ''\<newline>## '' @ [CHR 0xEC, CHR 0x9E, CHR 0x90, CHR 0xEB, CHR 0x8F, CHR 0x99] @ '' '' @
     [CHR 0xEC, CHR 0xB5, CHR 0x9C, CHR 0xEC, CHR 0xA0, CHR 0x81, CHR 0xED, CHR 0x99, CHR 0x94] @
     '' '' @ [CHR 0xEA, CHR 0xB2, CHR 0xB0, CHR 0xEA, CHR 0xB3, CHR 0xBC] @
     ''\<newline>\<newline>'' @ [CHR 0xEC, CHR 0x9D, CHR 0xB4] @ '' PR'' @
     [CHR 0xEC, CHR 0x9D, CHR 0x80] @ '' '' @
     [CHR 0xEC, CHR 0x84, CHR 0xB1, CHR 0xEB, CHR 0x8A, CHR 0xA5] @ '' '' @
     [CHR 0xEB, CHR 0xB6, CHR 0x84, CHR 0xEC, CHR 0x84, CHR 0x9D] @ '' '' @
     [CHR 0xEA, CHR 0xB8, CHR 0xB0, CHR 0xEB, CHR 0xB0, CHR 0x98, CHR 0xEC, CHR 0x9C, CHR 0xBC, CHR 0xEB, CHR 0xA1, CHR 0x9C] @
     '' '' @ [CHR 0xEC, CHR 0x9E, CHR 0x90, CHR 0xEB, CHR 0x8F, CHR 0x99] @ '' '' @
     [CHR 0xEC, CHR 0x83, CHR 0x9D, CHR 0xEC, CHR 0x84, CHR 0xB1, CHR 0xEB, CHR 0x90, CHR 0x98, CHR 0xEC, CHR 0x97, CHR 0x88, CHR 0xEC, CHR 0x8A, CHR 0xB5, CHR 0xEB, CHR 0x8B, CHR 0x88, CHR 0xEB, CHR 0x8B, CHR 0xA4] @
     ''.\<newline>\<newline>### '' @
     [CHR 0xEC, CHR 0x84, CHR 0xB1, CHR 0xEB, CHR 0x8A, CHR 0xA5] @ '' '' @
     [CHR 0xEA, CHR 0xB0, CHR 0x9C, CHR 0xEC, CHR 0x84, CHR 0xA0] @
     ''\<newline>\<newline>- **'' @
     [CHR 0xEB, CHR 0xB2, CHR 0xA4, CHR 0xEC, CHR 0xB9, CHR 0x98, CHR 0xEB, CHR 0xA7, CHR 0x88, CHR 0xED, CHR 0x81, CHR 0xAC] @
     '' '' @ [CHR 0xEC, CHR 0xA0, CHR 0x90, CHR 0xEC, CHR 0x88, CHR 0x98] @ ''**: ''"

definition pull_body_text_2 :: string where
  "pull_body_text_2 =
     ''\<newline>- **'' @ [CHR 0xED, CHR 0x86, CHR 0xA0, CHR 0xED, CHR 0x81, CHR 0xB0] @ '' '' @
     [CHR 0xED, CHR 0x9A, CHR 0xA8, CHR 0xEC, CHR 0x9C, CHR 0xA8] @ ''**: ''"

definition pull_body_text_3 :: string where
  "pull_body_text_3 =
     ''\<newline>- **'' @ [CHR 0xEC, CHR 0x8B, CHR 0xA4, CHR 0xED, CHR 0x96, CHR 0x89] @ '' '' @
     [CHR 0xEC, CHR 0x8B, CHR 0x9C, CHR 0xEA, CHR 0xB0, CHR 0x84] @ ''**: ''"

definition pull_body_text_4 :: string where
  "pull_body_text_4 =
     ''\<newline>\<newline>### '' @
     [CHR 0xEB, CHR 0xB3, CHR 0x80, CHR 0xEA, CHR 0xB2, CHR 0xBD] @ '' '' @
     [CHR 0xEC, CHR 0x82, CHR 0xAC, CHR 0xED, CHR 0x95, CHR 0xAD] @ ''\<newline>\<newline>- '' @
     [CHR 0xED, CHR 0x94, CHR 0x84, CHR 0xEB, CHR 0xA1, CHR 0xAC, CHR 0xED, CHR 0x94, CHR 0x84, CHR 0xED, CHR 0x8A, CHR 0xB8] @
     '' '' @
     [CHR 0xEC, CHR 0xB5, CHR 0x9C, CHR 0xEC, CHR 0xA0, CHR 0x81, CHR 0xED, CHR 0x99, CHR 0x94] @
     ''\<newline>- '' @
     [CHR 0xEB, CHR 0xA9, CHR 0x94, CHR 0xEB, CHR 0xAA, CHR 0xA8, CHR 0xEB, CHR 0xA6, CHR 0xAC] @
     '' '' @ [CHR 0xEA, CHR 0xB4, CHR 0x80, CHR 0xEB, CHR 0xA6, CHR 0xAC] @ '' '' @
     [CHR 0xEA, CHR 0xB0, CHR 0x9C, CHR 0xEC, CHR 0x84, CHR 0xA0] @ ''\<newline>- '' @
     [CHR 0xED, CHR 0x86, CHR 0xA0, CHR 0xED, CHR 0x81, CHR 0xB0] @ '' '' @
     [CHR 0xEC, CHR 0xA0, CHR 0x88, CHR 0xEA, CHR 0xB0, CHR 0x90] @ '' '' @
     [CHR 0xEA, CHR 0xB8, CHR 0xB0, CHR 0xEB, CHR 0xB2, CHR 0x95] @ '' '' @
     [CHR 0xEC, CHR 0xA0, CHR 0x81, CHR 0xEC, CHR 0x9A, CHR 0xA9] @
     ''\<newline>\<newline>### '' @
     [CHR 0xED, CHR 0x85, CHR 0x8C, CHR 0xEC, CHR 0x8A, CHR 0xA4, CHR 0xED, CHR 0x8A, CHR 0xB8] @
     '' '' @ [CHR 0xEA, CHR 0xB2, CHR 0xB0, CHR 0xEA, CHR 0xB3, CHR 0xBC] @
     ''\<newline>\<newline>'' @ [CHR 0xE2, CHR 0x9C, CHR 0x85] @ '' OpenEnv-Turing '' @
     [CHR 0xEB, CHR 0xB2, CHR 0xA4, CHR 0xEC, CHR 0xB9, CHR 0x98, CHR 0xEB, CHR 0xA7, CHR 0x88, CHR 0xED, CHR 0x81, CHR 0xAC] @
     '' '' @ [CHR 0xED, CHR 0x86, CHR 0xB5, CHR 0xEA, CHR 0xB3, CHR 0xBC] @ ''\<newline>'' @
     [CHR 0xE2, CHR 0x9C, CHR 0x85] @ '' '' @
     [CHR 0xEC, CHR 0x84, CHR 0xB1, CHR 0xEB, CHR 0x8A, CHR 0xA5] @ '' '' @
     [CHR 0xED, CHR 0x9A, CHR 0x8C, CHR 0xEA, CHR 0xB7, CHR 0x80] @ '' '' @
     [CHR 0xED, CHR 0x85, CHR 0x8C, CHR 0xEC, CHR 0x8A, CHR 0xA4, CHR 0xED, CHR 0x8A, CHR 0xB8] @
     '' '' @ [CHR 0xED, CHR 0x86, CHR 0xB5, CHR 0xEA, CHR 0xB3, CHR 0xBC] @
     ''\<newline>\<newline>---\<newline>\<newline>*'' @ [CHR 0xEC, CHR 0x9D, CHR 0xB4] @
     '' PR'' @ [CHR 0xEC, CHR 0x9D, CHR 0x80] @ '' '' @
     [CHR 0xEC, CHR 0x9E, CHR 0x90, CHR 0xEB, CHR 0x8F, CHR 0x99, CHR 0xEC, CHR 0x9C, CHR 0xBC, CHR 0xEB, CHR 0xA1, CHR 0x9C] @
     '' '' @
     [CHR 0xEC, CHR 0x83, CHR 0x9D, CHR 0xEC, CHR 0x84, CHR 0xB1, CHR 0xEB, CHR 0x90, CHR 0x98, CHR 0xEC, CHR 0x97, CHR 0x88, CHR 0xEC, CHR 0x8A, CHR 0xB5, CHR 0xEB, CHR 0x8B, CHR 0x88, CHR 0xEB, CHR 0x8B, CHR 0xA4] @
     ''. '' @ [CHR 0xEB, CHR 0xA6, CHR 0xAC, CHR 0xEB, CHR 0xB7, CHR 0xB0] @ '' '' @
     [CHR 0xED, CHR 0x9B, CHR 0x84] @ '' '' @
     [CHR 0xEB, CHR 0xB3, CHR 0x91, CHR 0xED, CHR 0x95, CHR 0xA9, CHR 0xED, CHR 0x95, CHR 0x98, CHR 0xEC, CHR 0x84, CHR 0xB8, CHR 0xEC, CHR 0x9A, CHR 0x94] @
     ''.*\<newline>            ''"

subsection \<open>Committing the execution log\<close>

text \<open>
  Inside the handler the message is built first; the arguments of the request are
  evaluated next, so a document that cannot be serialised raises before the request.
\<close>

definition execution_log_message :: "'v python \<Rightarrow> int \<Rightarrow> 'v metrics \<Rightarrow> string" where
  "execution_log_message py run_number metrics =
     bar_chart @ '' Auto-commit: Run #'' @ str_int run_number @ ''\<newline>\<newline>'' @
     ''- Benchmark Score: '' @ get_str py metrics ''benchmark_score'' ''N/A'' @ ''\<newline>'' @
     ''- Token Efficiency: '' @ get_str py metrics ''token_efficiency'' ''N/A'' @ ''\<newline>'' @
     ''- Execution Time: '' @ get_str py metrics ''execution_time'' ''N/A'' @ ''\<newline>'' @
     ''- Forgetting Score: '' @ get_str py metrics ''forgetting_score'' ''N/A''"

definition commit_execution_log ::
  "'v python \<Rightarrow> client \<Rightarrow> string \<Rightarrow> int \<Rightarrow> 'v metrics \<Rightarrow> string \<Rightarrow> string option action" where
  "commit_execution_log py cl timestamp run_number metrics log_content s =
     seq should_commit (\<lambda>due.
       if \<not> due then ret None
       else
         except_GithubException
           (seq (lift (dumps py (ExecutionLog run_number timestamp metrics log_content)))
              (\<lambda>content.
            seq (repo_create_file cl
                   (''logs/execution_'' @ str_int run_number @ ''_'' @ timestamp @ ''.json'')
                   (execution_log_message py run_number metrics)
                   content
                   (branch s))
              (\<lambda>commit_sha. ret (Some commit_sha))))
           (ret None)) s"

subsection \<open>Committing benchmark results\<close>

definition benchmark_message :: "'v python \<Rightarrow> 'v metrics \<Rightarrow> string" where
  "benchmark_message py results =
     trophy @ '' Benchmark Results\<newline>\<newline>'' @
     ''- Overall Score: '' @ get_str py results ''overall_score'' ''N/A'' @ ''\<newline>'' @
     ''- Pass Rate: '' @ get_str py results ''pass_rate'' ''N/A'' @ ''\<newline>'' @
     ''- Token Efficiency: '' @ get_str py results ''token_efficiency'' ''N/A''"

definition commit_benchmark_results ::
  "'v python \<Rightarrow> client \<Rightarrow> string \<Rightarrow> 'v metrics \<Rightarrow> string option action" where
  "commit_benchmark_results py cl timestamp results s =
     except_GithubException
       (seq (lift (dumps py (Results results))) (\<lambda>content.
        seq (repo_create_file cl
               (''benchmarks/results_'' @ timestamp @ ''.json'')
               (benchmark_message py results)
               content
               (branch s))
          (\<lambda>commit_sha. ret (Some commit_sha))))
       (ret None) s"

subsection \<open>The performance dashboard\<close>

definition dashboard_filename :: string where
  "dashboard_filename = ''performance/metrics_history.csv''"

definition dashboard_header :: string where
  "dashboard_header =
     ''timestamp,benchmark_score,token_usage,execution_time,forgetting_score\<newline>''"

definition dashboard_row :: "'v python \<Rightarrow> string \<Rightarrow> 'v metrics \<Rightarrow> string" where
  "dashboard_row py timestamp metrics =
     timestamp @ '','' @ get_str py metrics ''benchmark_score'' ''0'' @ '','' @
     get_str py metrics ''token_usage'' ''0'' @ '','' @
     get_str py metrics ''execution_time'' ''0'' @ '','' @
     get_str py metrics ''forgetting_score'' ''0'' @ ''\<newline>''"

text \<open>
  The inner handler catches everything, so a failed read, a failed decoding and a failed
  update all lead to the creation of the file; the outer handler turns a
  \<^verbatim>\<open>GithubException\<close> of that creation into \<open>None\<close>.
\<close>

definition update_performance_dashboard ::
  "'v python \<Rightarrow> client \<Rightarrow> string \<Rightarrow> 'v metrics \<Rightarrow> string option action" where
  "update_performance_dashboard py cl timestamp metrics s =
     except_GithubException
       (seq
          (except_all
             (seq (repo_get_contents cl dashboard_filename (branch s)) (\<lambda>file.
              seq (lift (decode py (decoded_content file))) (\<lambda>content.
              repo_update_file cl dashboard_filename
                (bar_chart @ '' Update performance metrics: '' @ timestamp)
                (content @ dashboard_row py timestamp metrics)
                (sha file) (branch s))))
             (repo_create_file cl dashboard_filename
                (new_button @ '' Initialize performance dashboard'')
                (dashboard_header @ dashboard_row py timestamp metrics)
                (branch s)))
          (\<lambda>commit_sha. ret (Some commit_sha)))
       (ret None) s"

subsection \<open>The issue on a degraded score\<close>

definition issue_title :: "pyfloat \<Rightarrow> string" where
  "issue_title degradation =
     warning_sign @ '' Performance Degradation Detected: '' @ float_format 1 degradation @
     ''% drop''"

definition issue_body :: "pyfloat \<Rightarrow> pyfloat \<Rightarrow> pyfloat \<Rightarrow> string" where
  "issue_body baseline current degradation =
     issue_body_text_1 @ float_format 4 baseline @
     issue_body_text_2 @ float_format 4 current @
     issue_body_text_3 @ float_format 2 degradation @
     issue_body_text_4"

text \<open>
  \<^verbatim>\<open>(baseline - current) / baseline * 100\<close>; the division raises when the baseline
  is zero.
\<close>

definition degradation_percent :: "pyfloat \<Rightarrow> pyfloat \<Rightarrow> exn + pyfloat" where
  "degradation_percent baseline current =
     (case float_truediv (float_sub baseline current) baseline of
        Inl e \<Rightarrow> Inl e
      | Inr ratio \<Rightarrow> Inr (float_mul ratio (Finite 100)))"

definition create_performance_issue_if_degraded ::
  "client \<Rightarrow> pyfloat \<Rightarrow> pyfloat \<Rightarrow> pyfloat \<Rightarrow> int option action" where
  "create_performance_issue_if_degraded cl baseline current threshold =
     (if float_ge current (float_sub baseline threshold) then ret None
      else
        seq (lift (degradation_percent baseline current)) (\<lambda>degradation.
          except_GithubException
            (seq (repo_create_issue cl
                    (issue_title degradation)
                    (issue_body baseline current degradation)
                    [''bug'', ''auto-generated'', ''priority-high'']
                    [''GilbertKwak''])
               (\<lambda>number. ret (Some number)))
            (ret None)))"

subsection \<open>The pull request with an optimised prompt\<close>

definition pull_title :: "string \<Rightarrow> string" where
  "pull_title improvement = sparkles @ '' Auto-optimized prompt: '' @ improvement @ ''% better''"

definition pull_body :: "'v python \<Rightarrow> 'v metrics \<Rightarrow> string" where
  "pull_body py performance_improvement =
     pull_body_text_1 @ get_str py performance_improvement ''benchmark_score'' ''N/A'' @
     pull_body_text_2 @ get_str py performance_improvement ''token_efficiency'' ''N/A'' @
     pull_body_text_3 @ get_str py performance_improvement ''execution_time'' ''N/A'' @
     pull_body_text_4"

text \<open>\<^verbatim>\<open>branch_name = f"auto-optimize-{timestamp}"\<close>.\<close>

definition branch_name :: "string \<Rightarrow> string" where
  "branch_name timestamp = ''auto-optimize-'' @ timestamp"

definition prompt_path :: string where
  "prompt_path = ''prompts/v4.0-complete-integration.xml''"

definition create_optimization_pull_request ::
  "'v python \<Rightarrow> client \<Rightarrow> string \<Rightarrow> string \<Rightarrow> 'v metrics \<Rightarrow> int option action" where
  "create_optimization_pull_request py cl timestamp optimized_prompt performance_improvement s =
     except_GithubException
       (seq (repo_get_branch cl (branch s)) (\<lambda>tip.
        seq (repo_create_git_ref cl (''refs/heads/'' @ branch_name timestamp) tip) (\<lambda>_.
        seq (repo_get_contents cl prompt_path (branch_name timestamp)) (\<lambda>file.
        seq (repo_update_file cl (path file) (sparkles @ '' Auto-optimized prompt'')
               optimized_prompt (sha file) (branch_name timestamp)) (\<lambda>_.
        seq (lift (get_1f py performance_improvement ''improvement'')) (\<lambda>improvement.
        seq (repo_create_pull cl (pull_title improvement)
               (pull_body py performance_improvement)
               (branch_name timestamp) (branch s)) (\<lambda>number.
        seq (pr_create_review_request cl number [''GilbertKwak'']) (\<lambda>_.
        ret (Some number)))))))))
       (ret None) s"

subsection \<open>Calling the counter repeatedly\<close>

text \<open>A caller that invokes \<^verbatim>\<open>increment_run()\<close> a number of times and keeps the results.\<close>

fun increment_run_times :: "nat \<Rightarrow> state \<Rightarrow> (exn + int) list \<times> state" where
  "increment_run_times 0 s = ([], s)"
| "increment_run_times (Suc m) s =
     (case increment_run s of (r, s1) \<Rightarrow>
        (case increment_run_times m s1 of (rs, s2) \<Rightarrow> (r # rs, s2)))"

subsection \<open>Reading a record of requests\<close>

datatype api_method =
    create_file_method | get_contents_method | update_file_method | create_issue_method
  | get_branch_method | create_git_ref_method | create_pull_method
  | create_review_request_method

fun method_of :: "call \<Rightarrow> api_method" where
  "method_of (CreateFile p m c b) = create_file_method"
| "method_of (GetContents p r) = get_contents_method"
| "method_of (UpdateFile p m c t b) = update_file_method"
| "method_of (CreateIssue t b l a) = create_issue_method"
| "method_of (GetBranch b) = get_branch_method"
| "method_of (CreateGitRef r t) = create_git_ref_method"
| "method_of (CreatePull t b h a) = create_pull_method"
| "method_of (CreateReviewRequest n r) = create_review_request_method"

text \<open>Whether the client answers a request, issued after the requests \<open>tr\<close>, without raising.\<close>

fun accepted :: "client \<Rightarrow> call list \<Rightarrow> call \<Rightarrow> bool" where
  "accepted cl tr (CreateFile p m c b) = (create_file cl tr p m c b \<noteq> None)"
| "accepted cl tr (GetContents p r) = (get_contents cl tr p r \<noteq> None)"
| "accepted cl tr (UpdateFile p m c t b) = (update_file cl tr p m c t b \<noteq> None)"
| "accepted cl tr (CreateIssue t b l a) = (create_issue cl tr t b l a \<noteq> None)"
| "accepted cl tr (GetBranch b) = (get_branch cl tr b \<noteq> None)"
| "accepted cl tr (CreateGitRef r t) = (create_git_ref cl tr r t \<noteq> None)"
| "accepted cl tr (CreatePull t b h a) = (create_pull cl tr t b h a \<noteq> None)"
| "accepted cl tr (CreateReviewRequest n r) = (create_review_request cl tr n r \<noteq> None)"

fun all_accepted :: "client \<Rightarrow> call list \<Rightarrow> call list \<Rightarrow> bool" where
  "all_accepted cl tr [] = True"
| "all_accepted cl tr (c # cs) = (accepted cl tr c \<and> all_accepted cl (tr @ [c]) cs)"

text \<open>The requests that an action adds to the record.\<close>

definition new_calls :: "state \<Rightarrow> state \<Rightarrow> call list" where
  "new_calls s s' = drop (length (calls s)) (calls s')"

text \<open>The order of the steps of \<^verbatim>\<open>create_optimization_pull_request\<close>.\<close>

definition pull_request_steps :: "api_method list" where
  "pull_request_steps =
     [get_branch_method, create_git_ref_method, get_contents_method, update_file_method,
      create_pull_method, create_review_request_method]"

subsection \<open>Test doubles\<close>

text \<open>
  A runtime for three kinds of values: a Python integer, a Python string, and the empty
  set \<^verbatim>\<open>set()\<close>, which JSON cannot hold. The text that its \<open>json_dumps\<close> returns
  stands for the JSON text. Then a client that accepts every request, and the state that
  the constructor leaves with its defaults when no counter file exists.
\<close>

datatype sample_value = IntValue int | StrValue string | EmptySet

fun sample_str :: "sample_value \<Rightarrow> string" where
  "sample_str (IntValue i) = str_int i"
| "sample_str (StrValue t) = t"
| "sample_str EmptySet = ''set()''"

fun sample_format_1f :: "sample_value \<Rightarrow> format_error + string" where
  "sample_format_1f (IntValue i) =
     (if is_inf (round_to_double (of_int i)) then Inl FormatOverflowError
      else Inr (float_format 1 (round_to_double (of_int i))))"
| "sample_format_1f (StrValue t) = Inl FormatValueError"
| "sample_format_1f EmptySet = Inl FormatTypeError"

definition serialisable :: "sample_value metrics \<Rightarrow> bool" where
  "serialisable m = list_all (\<lambda>item. snd item \<noteq> EmptySet) m"

fun sample_json_dumps :: "sample_value document \<Rightarrow> string option" where
  "sample_json_dumps (ExecutionLog n t m l) =
     (if serialisable m then Some (''execution '' @ str_int n) else None)"
| "sample_json_dumps (Results m) = (if serialisable m then Some ''results'' else None)"

definition sample_python :: "sample_value python" where
  "sample_python =
     \<lparr>str_of = sample_str, format_1f = sample_format_1f, json_dumps = sample_json_dumps,
      decode_utf8 = Some\<rparr>"

definition accepting_client :: client where
  "accepting_client =
     \<lparr>create_file = (\<lambda>tr p m c b. Some ''1f3a5c7''),
      get_contents = (\<lambda>tr p r. Some \<lparr>path = p, decoded_content = ''t,1,2,3,4\<newline>'', sha = ''9e8d7c6''\<rparr>),
      update_file = (\<lambda>tr p m c t b. Some ''2b4d6f8''),
      create_issue = (\<lambda>tr t b l a. Some 7),
      get_branch = (\<lambda>tr b. Some ''c0ffee0''),
      create_git_ref = (\<lambda>tr r t. Some ()),
      create_pull = (\<lambda>tr t b h a. Some 12),
      create_review_request = (\<lambda>tr n r. Some ())\<rparr>"

definition initial_state :: state where
  "initial_state =
     \<lparr>repo_name = ''GilbertKwak/ai-multiagent-framework-v4'', branch = ''main'',
      auto_commit = True, commit_interval = 10, run_count = 0, count_file = None,
      calls = []\<rparr>"

subsection \<open>What an action leaves unchanged\<close>

text \<open>An action keeps a projection of the state when it returns the state with the same projection.\<close>

definition keeps :: "(state \<Rightarrow> 'b) \<Rightarrow> 'a action \<Rightarrow> bool" where
  "keeps f m = (\<forall>s. f (snd (m s)) = f s)"

text \<open>The state without the record of requests: the attributes and the counter file.\<close>

definition local_part :: "state \<Rightarrow> state" where
  "local_part s = s\<lparr>calls := []\<rparr>"

definition same_counter_and_settings :: "state \<Rightarrow> state \<Rightarrow> bool" where
  "same_counter_and_settings s s' =
     (run_count s' = run_count s \<and> count_file s' = count_file s \<and>
      repo_name s' = repo_name s \<and> branch s' = branch s \<and>
      auto_commit s' = auto_commit s \<and> commit_interval s' = commit_interval s)"

section \<open>Properties\<close>

lemmas action_defs = ret_def seq_def lift_def request_def
  except_GithubException_def except_all_def

lemmas repo_defs = repo_create_file_def repo_get_contents_def repo_update_file_def
  repo_create_issue_def repo_get_branch_def repo_create_git_ref_def repo_create_pull_def
  pr_create_review_request_def

subsection \<open>Evaluating floats\<close>

lemma floor_numeral_quotient:
  "\<lfloor>(numeral a :: rat) / numeral b\<rfloor> = numeral a div numeral b"
  using floor_divide_of_int_eq [of "numeral a" "numeral b", where ?'a = rat] by simp

lemma ceiling_numeral_quotient:
  "\<lceil>(numeral a :: rat) / numeral b\<rceil> = - ((- numeral a) div numeral b)"
  using floor_divide_of_int_eq [of "- numeral a" "numeral b", where ?'a = rat]
  by (simp add: ceiling_def)

lemmas float_eval = round_to_double_def floor_log2_def pow2_def round_half_even_def
  bit_length.simps Let_def float_sub_def float_mul_def float_div_def float_truediv_def
  float_ge_def is_zero_def is_inf_def signed_zero_def signed_inf_def
  floor_numeral_quotient ceiling_numeral_quotient

lemmas format_eval = format_f_def zero_pad_def str_nat.simps digit_char_def

subsection \<open>Stepping through an action\<close>

lemma except_GithubException_eq:
  "except_GithubException m h s =
     (if fst (m s) = Inl GithubException then h (snd (m s)) else m s)"
  by (cases "m s") (simp add: except_GithubException_def split: sum.splits exn.splits)

lemma except_all_eq:
  "except_all m h s = (case fst (m s) of Inl e \<Rightarrow> h (snd (m s)) | Inr x \<Rightarrow> m s)"
  by (cases "m s") (simp add: except_all_def split: sum.splits)

lemma seq_request_None:
  "respond (calls s) = None \<Longrightarrow>
   seq (request c respond) f s = (Inl GithubException, s\<lparr>calls := calls s @ [c]\<rparr>)"
  by (simp add: seq_def request_def)

lemma seq_request_Some:
  "respond (calls s) = Some v \<Longrightarrow>
   seq (request c respond) f s = f v (s\<lparr>calls := calls s @ [c]\<rparr>)"
  by (simp add: seq_def request_def)

lemma seq_lift_Inl: "seq (lift (Inl e)) f s = (Inl e, s)"
  by (simp add: seq_def lift_def)

lemma seq_lift_Inr: "seq (lift (Inr x)) f s = f x s"
  by (simp add: seq_def lift_def)

lemma new_calls_append: "new_calls s (s\<lparr>calls := calls s @ cs\<rparr>) = cs"
  by (simp add: new_calls_def)

lemmas step_simps = seq_request_None seq_request_Some seq_lift_Inl seq_lift_Inr
  except_GithubException_eq ret_def repo_defs

subsection \<open>The commit decision\<close>

text \<open>
  Claim C1. For a positive interval, \<^verbatim>\<open>should_commit()\<close> returns true exactly when the
  auto-commit flag is set and the counter is a multiple of the interval. It returns the
  state it was given: no request is recorded, and no attribute and no file changes.
\<close>

theorem should_commit_iff:
  "0 < commit_interval s \<Longrightarrow>
   should_commit s = (Inr (auto_commit s \<and> run_count s mod commit_interval s = 0), s)"
  by (simp add: should_commit_def)

theorem should_commit_iff_witness:
  "0 < commit_interval (initial_state\<lparr>run_count := 20\<rparr>) \<and>
   should_commit (initial_state\<lparr>run_count := 20\<rparr>) =
     (Inr True, initial_state\<lparr>run_count := 20\<rparr>) \<and>
   should_commit (initial_state\<lparr>run_count := 21\<rparr>) =
     (Inr False, initial_state\<lparr>run_count := 21\<rparr>)"
  using should_commit_iff [of "initial_state\<lparr>run_count := 20\<rparr>"]
        should_commit_iff [of "initial_state\<lparr>run_count := 21\<rparr>"]
  by (simp add: initial_state_def)

subsection \<open>The execution log is skipped when no commit is due\<close>

text \<open>
  Claim C5. When \<^verbatim>\<open>should_commit()\<close> is false, \<^verbatim>\<open>commit_execution_log\<close> returns
  \<open>None\<close> and leaves the state as it was, so the record of requests has not grown: the
  client's file creation, like every other client method, was not called.
\<close>

theorem commit_execution_log_skip:
  "fst (should_commit s) = Inr False \<Longrightarrow>
   commit_execution_log py cl timestamp run_number metrics log_content s = (Inr None, s)"
  by (cases "should_commit s")
    (simp add: commit_execution_log_def action_defs should_commit_def split: if_splits)

theorem commit_execution_log_skip_witness:
  "fst (should_commit (initial_state\<lparr>run_count := 3\<rparr>)) = Inr False \<and>
   commit_execution_log sample_python accepting_client ''2026-01-01T00:00:00'' 3 [] ''log''
     (initial_state\<lparr>run_count := 3\<rparr>) = (Inr None, initial_state\<lparr>run_count := 3\<rparr>)"
proof -
  have h: "fst (should_commit (initial_state\<lparr>run_count := 3\<rparr>)) = Inr False"
    by (simp add: should_commit_def initial_state_def)
  show ?thesis
    using h commit_execution_log_skip [OF h] by simp
qed

subsection \<open>Committing benchmark results\<close>

lemma commit_benchmark_results_serialised:
  "json_dumps py (Results results) = Some content \<Longrightarrow>
   commit_benchmark_results py cl timestamp results s =
     (Inr (create_file cl (calls s) (''benchmarks/results_'' @ timestamp @ ''.json'')
             (benchmark_message py results) content (branch s)),
      s\<lparr>calls := calls s @
          [CreateFile (''benchmarks/results_'' @ timestamp @ ''.json'')
             (benchmark_message py results) content (branch s)]\<rparr>)"
  by (simp add: commit_benchmark_results_def action_defs repo_defs dumps_def
      split: option.splits)

text \<open>
  Claim C9 says that \<^verbatim>\<open>commit_benchmark_results\<close> attempts exactly one file creation
  for every results mapping and returns the commit identifier or \<open>None\<close>. For the mapping
  \<^verbatim>\<open>{"overall_score": set()}\<close> the serialisation of line 206 raises
  \<^verbatim>\<open>TypeError\<close> inside a handler that catches \<^verbatim>\<open>GithubException\<close> only: the
  exception leaves the method and no request is issued.
\<close>

theorem unserialisable_results_raise:
  "commit_benchmark_results sample_python accepting_client ''2026-01-01T00:00:00''
     [(''overall_score'', EmptySet)] initial_state = (Inl TypeError, initial_state)"
  by (simp add: commit_benchmark_results_def action_defs dumps_def sample_python_def
      serialisable_def)

subsection \<open>Counting runs\<close>

lemma upt_0_Suc_shift: "[0..<Suc m] = 0 # map Suc [0..<m]"
  by (simp only: map_Suc_upt upt_conv_Cons [of 0 "Suc m"] zero_less_Suc)

lemma increment_run_times_from:
  "increment_run_times m s =
     (map (\<lambda>i. Inr (run_count s + 1 + int i)) [0..<m],
      if m = 0 then s
      else s\<lparr>run_count := run_count s + int m,
             count_file := Some (str_int (run_count s + int m))\<rparr>)"
proof (induction m arbitrary: s)
  case 0
  show ?case by simp
next
  case (Suc m)
  have step: "increment_run s =
      (Inr (run_count s + 1),
       s\<lparr>run_count := run_count s + 1, count_file := Some (str_int (run_count s + 1))\<rparr>)"
    by (simp add: increment_run_def save_run_count_def Let_def)
  have shift: "map (\<lambda>i. Inr (run_count s + 1 + int i) :: exn + int) [0..<Suc m] =
      Inr (run_count s + 1) # map (\<lambda>i. Inr (run_count s + 1 + 1 + int i)) [0..<m]"
    by (simp only: upt_0_Suc_shift list.map map_map o_def) (simp add: algebra_simps)
  show ?case
    unfolding increment_run_times.simps step shift
    by (simp add: Suc algebra_simps)
qed

text \<open>
  Claim C8. From a counter of zero, \<open>m\<close> calls of \<^verbatim>\<open>increment_run()\<close> return
  \<open>1, 2, \<dots>, m\<close> in this order, none raises, the counter ends at \<open>m\<close>, and the counter
  file holds the decimal text of \<open>m\<close> (for \<open>m = 0\<close> nothing is called and nothing changes).
\<close>

theorem increment_run_counts:
  "run_count s = 0 \<Longrightarrow>
   increment_run_times m s =
     (map (\<lambda>i. Inr (int i)) [1..<Suc m],
      if m = 0 then s
      else s\<lparr>run_count := int m, count_file := Some (str_int (int m))\<rparr>)"
proof -
  assume z: "run_count s = 0"
  have "map (\<lambda>i. Inr (int i) :: exn + int) [1..<Suc m] =
      map (\<lambda>i. Inr (run_count s + 1 + int i)) [0..<m]"
    using z by (simp add: map_Suc_upt [symmetric] o_def add.commute del: upt_Suc)
  then show ?thesis
    using z by (simp add: increment_run_times_from del: upt_Suc)
qed

theorem increment_run_counts_witness:
  "run_count initial_state = 0 \<and>
   increment_run_times 3 initial_state =
     ([Inr 1, Inr 2, Inr 3], initial_state\<lparr>run_count := 3, count_file := Some ''3''\<rparr>)"
proof -
  have z: "run_count initial_state = 0" by (simp add: initial_state_def)
  have u: "map (\<lambda>i. Inr (int i) :: exn + int) [1..<Suc 3] = [Inr 1, Inr 2, Inr 3]"
    by (simp add: upt_rec)
  have d: "str_int (int 3) = ''3''" by code_simp
  have w: "increment_run_times 3 initial_state =
     (map (\<lambda>i. Inr (int i)) [1..<Suc 3],
      if (3::nat) = 0 then initial_state
      else initial_state\<lparr>run_count := int 3, count_file := Some (str_int (int 3))\<rparr>)"
    by (rule increment_run_counts [OF z])
  show ?thesis using z w unfolding u d by simp
qed

subsection \<open>Only the counter operation changes the counter\<close>

lemma keepsD: "keeps f m \<Longrightarrow> f (snd (m s)) = f s"
  by (simp add: keeps_def)

lemma keeps_ret: "keeps f (ret x)"
  by (simp add: keeps_def ret_def)

lemma keeps_lift: "keeps f (lift r)"
  by (simp add: keeps_def lift_def)

lemma keeps_seq: "keeps f m \<Longrightarrow> (\<And>x. keeps f (g x)) \<Longrightarrow> keeps f (seq m g)"
  unfolding keeps_def seq_def
proof (intro allI)
  fix s
  assume m: "\<forall>s. f (snd (m s)) = f s" and g: "\<And>x. \<forall>s. f (snd (g x s)) = f s"
  obtain r s1 where ms: "m s = (r, s1)" by (cases "m s")
  from m have s1: "f s1 = f s" using ms by (metis snd_conv)
  show "f (snd (case m s of (Inl e, s') \<Rightarrow> (Inl e, s') | (Inr x, s') \<Rightarrow> g x s')) = f s"
    using s1 g by (cases r) (simp_all add: ms)
qed

lemma keeps_except_GithubException:
  "keeps f m \<Longrightarrow> keeps f h \<Longrightarrow> keeps f (except_GithubException m h)"
  unfolding keeps_def except_GithubException_def
proof (intro allI)
  fix s
  assume m: "\<forall>s. f (snd (m s)) = f s" and h: "\<forall>s. f (snd (h s)) = f s"
  obtain r s1 where ms: "m s = (r, s1)" by (cases "m s")
  from m have s1: "f s1 = f s" using ms by (metis snd_conv)
  show "f (snd (case m s of (Inl GithubException, s') \<Rightarrow> h s' | r \<Rightarrow> r)) = f s"
    using s1 h by (simp add: ms split: sum.splits exn.splits)
qed

lemma keeps_except_all: "keeps f m \<Longrightarrow> keeps f h \<Longrightarrow> keeps f (except_all m h)"
  unfolding keeps_def except_all_def
proof (intro allI)
  fix s
  assume m: "\<forall>s. f (snd (m s)) = f s" and h: "\<forall>s. f (snd (h s)) = f s"
  obtain r s1 where ms: "m s = (r, s1)" by (cases "m s")
  from m have s1: "f s1 = f s" using ms by (metis snd_conv)
  show "f (snd (case m s of (Inl e, s') \<Rightarrow> h s' | r \<Rightarrow> r)) = f s"
    using s1 h by (simp add: ms split: sum.splits)
qed

lemma keeps_request: "keeps local_part (request c respond)"
  by (simp add: keeps_def request_def local_part_def split: option.splits)

lemma keeps_should_commit: "keeps f should_commit"
  by (simp add: keeps_def should_commit_def)

lemmas keeps_intros = keeps_ret keeps_lift keeps_seq keeps_except_GithubException
  keeps_except_all keeps_request keeps_should_commit

lemma keeps_if: "keeps f a \<Longrightarrow> keeps f b \<Longrightarrow> keeps f (if c then a else b)"
  by simp

lemma local_commit_execution_log:
  "local_part (snd (commit_execution_log py cl timestamp run_number metrics log_content s)) =
   local_part s"
  unfolding commit_execution_log_def repo_defs
  by (intro keepsD keeps_intros keeps_if)

lemma local_commit_benchmark_results:
  "local_part (snd (commit_benchmark_results py cl timestamp results s)) = local_part s"
  unfolding commit_benchmark_results_def repo_defs
  by (intro keepsD keeps_intros keeps_if)

lemma local_update_performance_dashboard:
  "local_part (snd (update_performance_dashboard py cl timestamp metrics s)) = local_part s"
  unfolding update_performance_dashboard_def repo_defs
  by (intro keepsD keeps_intros keeps_if)

lemma local_create_performance_issue_if_degraded:
  "local_part (snd (create_performance_issue_if_degraded cl baseline current threshold s)) =
   local_part s"
  unfolding create_performance_issue_if_degraded_def repo_defs
  by (intro keepsD keeps_intros keeps_if)

lemma local_create_optimization_pull_request:
  "local_part (snd (create_optimization_pull_request py cl timestamp optimized_prompt
      performance_improvement s)) = local_part s"
  unfolding create_optimization_pull_request_def repo_defs
  by (intro keepsD keeps_intros keeps_if)

lemma local_part_same: "local_part s' = local_part s \<Longrightarrow> same_counter_and_settings s s'"
  unfolding local_part_def same_counter_and_settings_def
  by (cases s, cases s') simp

text \<open>
  Claim C10. \<^verbatim>\<open>increment_run()\<close> adds exactly one to the counter, writes its text to
  the counter file, and changes nothing else. Every other public operation leaves the
  counter, the counter file, the repository identifier, the branch name, the auto-commit
  flag and the commit interval as they were, whatever it returns or raises.
\<close>

theorem only_increment_run_counts:
  "increment_run s =
     (Inr (run_count s + 1),
      s\<lparr>run_count := run_count s + 1, count_file := Some (str_int (run_count s + 1))\<rparr>) \<and>
   same_counter_and_settings s (snd (should_commit s)) \<and>
   same_counter_and_settings s
     (snd (commit_execution_log py cl timestamp run_number metrics log_content s)) \<and>
   same_counter_and_settings s (snd (commit_benchmark_results py cl timestamp results s)) \<and>
   same_counter_and_settings s (snd (update_performance_dashboard py cl timestamp metrics s)) \<and>
   same_counter_and_settings s
     (snd (create_performance_issue_if_degraded cl baseline current threshold s)) \<and>
   same_counter_and_settings s
     (snd (create_optimization_pull_request py cl timestamp optimized_prompt
        performance_improvement s))"
  by (intro conjI local_part_same local_commit_execution_log local_commit_benchmark_results
      local_update_performance_dashboard local_create_performance_issue_if_degraded
      local_create_optimization_pull_request)
    (simp_all add: increment_run_def save_run_count_def Let_def should_commit_def)

subsection \<open>Which operations wait for the counter\<close>

text \<open>
  Claim C3, as stated, fails: with auto-commit disabled and the counter at 3 of 10,
  \<^verbatim>\<open>commit_benchmark_results\<close> issues a file creation.
\<close>

theorem remote_write_gate_counterexample:
  "\<not> auto_commit (initial_state\<lparr>auto_commit := False, run_count := 3\<rparr>) \<and>
   run_count (initial_state\<lparr>auto_commit := False, run_count := 3\<rparr>) mod
     commit_interval (initial_state\<lparr>auto_commit := False, run_count := 3\<rparr>) \<noteq> 0 \<and>
   new_calls (initial_state\<lparr>auto_commit := False, run_count := 3\<rparr>)
     (snd (commit_benchmark_results sample_python accepting_client ''2026-01-01T00:00:00''
        [] (initial_state\<lparr>auto_commit := False, run_count := 3\<rparr>))) =
     [CreateFile ''benchmarks/results_2026-01-01T00:00:00.json''
        (benchmark_message sample_python []) ''results'' ''main'']"
proof -
  have d: "json_dumps sample_python (Results []) = Some ''results''"
    by (simp add: sample_python_def serialisable_def)
  show ?thesis
    by (simp add: commit_benchmark_results_serialised [OF d] new_calls_def initial_state_def)
qed

text \<open>
  Claim C3, amended. \<^verbatim>\<open>commit_execution_log\<close> issues a request only when auto-commit
  is enabled and the counter is a multiple of the (non-zero) interval, and
  \<^verbatim>\<open>should_commit\<close> and \<^verbatim>\<open>increment_run\<close> never issue a request.
\<close>

theorem execution_log_write_only_when_due:
  "(calls (snd (commit_execution_log py cl timestamp run_number metrics log_content s)) \<noteq> calls s
      \<longrightarrow> auto_commit s \<and> commit_interval s \<noteq> 0 \<and> run_count s mod commit_interval s = 0) \<and>
   calls (snd (should_commit s)) = calls s \<and>
   calls (snd (increment_run s)) = calls s"
  by (simp add: commit_execution_log_def should_commit_def increment_run_def save_run_count_def
      Let_def action_defs)

theorem execution_log_write_only_when_due_witness:
  "calls (snd (commit_execution_log sample_python accepting_client ''2026-01-01T00:00:00'' 10
      [] ''log'' (initial_state\<lparr>run_count := 10\<rparr>))) \<noteq>
     calls (initial_state\<lparr>run_count := 10\<rparr>) \<and>
   auto_commit (initial_state\<lparr>run_count := 10\<rparr>) \<and>
   run_count (initial_state\<lparr>run_count := 10\<rparr>) mod
     commit_interval (initial_state\<lparr>run_count := 10\<rparr>) = 0"
proof -
  have h: "calls (snd (commit_execution_log sample_python accepting_client ''2026-01-01T00:00:00'' 10
      [] ''log'' (initial_state\<lparr>run_count := 10\<rparr>))) \<noteq>
     calls (initial_state\<lparr>run_count := 10\<rparr>)"
    by (simp add: commit_execution_log_def should_commit_def action_defs repo_defs dumps_def
        initial_state_def accepting_client_def sample_python_def serialisable_def)
  show ?thesis
    using h execution_log_write_only_when_due [of sample_python accepting_client
        "''2026-01-01T00:00:00''" 10 "[]" "''log''" "initial_state\<lparr>run_count := 10\<rparr>"]
    by blast
qed

subsection \<open>The issue on a degraded score\<close>

lemma degraded_issue_outcome:
  "(float_ge current (float_sub baseline threshold) \<longrightarrow>
      create_performance_issue_if_degraded cl baseline current threshold s = (Inr None, s)) \<and>
   (\<not> float_ge current (float_sub baseline threshold) \<and> \<not> is_zero baseline \<longrightarrow>
      create_performance_issue_if_degraded cl baseline current threshold s =
        (Inr (create_issue cl (calls s)
                (issue_title
                   (float_mul (float_div (float_sub baseline current) baseline) (Finite 100)))
                (issue_body baseline current
                   (float_mul (float_div (float_sub baseline current) baseline) (Finite 100)))
                [''bug'', ''auto-generated'', ''priority-high''] [''GilbertKwak'']),
         s\<lparr>calls := calls s @
           [CreateIssue
              (issue_title
                 (float_mul (float_div (float_sub baseline current) baseline) (Finite 100)))
              (issue_body baseline current
                 (float_mul (float_div (float_sub baseline current) baseline) (Finite 100)))
              [''bug'', ''auto-generated'', ''priority-high''] [''GilbertKwak'']]\<rparr>))"
  by (simp add: create_performance_issue_if_degraded_def degradation_percent_def
      float_truediv_def action_defs repo_defs split: option.splits)

text \<open>
  The examples of the specification, and one where the rounding of the subtraction decides:
  for the baseline 1.0 and the threshold 0.05 the score 0.96 is not degraded and the score
  0.90 is reported as a drop of 10.0 percent; for the baseline 0.4 and the threshold 0.05
  the score 0.35 is below the rounded difference.
\<close>

lemma degraded_issue_examples:
  "float_ge (round_to_double (96 / 100)) (float_sub (Finite 1) (round_to_double (5 / 100)))"
  "\<not> float_ge (round_to_double (90 / 100)) (float_sub (Finite 1) (round_to_double (5 / 100)))"
  "float_format 1
     (float_mul (float_div (float_sub (Finite 1) (round_to_double (90 / 100))) (Finite 1))
        (Finite 100)) = ''10.0''"
  "\<not> float_ge (round_to_double (35 / 100))
     (float_sub (round_to_double (4 / 10)) (round_to_double (5 / 100)))"
  by (simp_all add: float_eval format_eval)

text \<open>
  Claim C4 says that for all arguments the operation either returns \<open>None\<close> without a
  request or requests an issue. For the baseline 0.0, the score -0.5 and the threshold 0.05
  the guard does not return, and the division of line 289 raises
  \<^verbatim>\<open>ZeroDivisionError\<close> before any request: no issue is requested.
\<close>

theorem zero_baseline_requests_no_issue:
  "\<not> float_ge (round_to_double (- (1 / 2)))
       (float_sub (Finite 0) (round_to_double (1 / 20))) \<and>
   fst (create_performance_issue_if_degraded accepting_client (Finite 0)
          (round_to_double (- (1 / 2))) (round_to_double (1 / 20)) initial_state) =
     Inl ZeroDivisionError \<and>
   new_calls initial_state
     (snd (create_performance_issue_if_degraded accepting_client (Finite 0)
             (round_to_double (- (1 / 2))) (round_to_double (1 / 20)) initial_state)) = []"
  by (simp add: create_performance_issue_if_degraded_def degradation_percent_def action_defs
      new_calls_def float_eval)

subsection \<open>An exception that leaves a public operation\<close>

text \<open>
  Claim C2 says that no public operation raises, not even
  \<^verbatim>\<open>create_performance_issue_if_degraded\<close> for a baseline of zero. The source divides
  by the baseline outside its handler: for the baseline 0.0, the score -1.0 and the
  threshold 0.05 the method raises \<^verbatim>\<open>ZeroDivisionError\<close>.
\<close>

theorem issue_with_zero_baseline_raises:
  "create_performance_issue_if_degraded accepting_client (Finite 0) (Finite (- 1))
     (round_to_double (1 / 20)) initial_state = (Inl ZeroDivisionError, initial_state)"
  by (simp add: create_performance_issue_if_degraded_def degradation_percent_def action_defs
      float_eval)

subsection \<open>The rows of the dashboard\<close>

lemma dashboard_file_absent:
  assumes "get_contents cl (calls s) dashboard_filename (branch s) = None"
  shows "update_performance_dashboard py cl timestamp metrics s =
     (Inr (create_file cl (calls s @ [GetContents dashboard_filename (branch s)])
             dashboard_filename (new_button @ '' Initialize performance dashboard'')
             (dashboard_header @ dashboard_row py timestamp metrics) (branch s)),
      s\<lparr>calls := calls s @
        [GetContents dashboard_filename (branch s),
         CreateFile dashboard_filename (new_button @ '' Initialize performance dashboard'')
           (dashboard_header @ dashboard_row py timestamp metrics) (branch s)]\<rparr>)"
  using assms
  by (simp add: update_performance_dashboard_def except_GithubException_eq except_all_eq
      seq_def request_def ret_def repo_defs split: option.splits)

lemma dashboard_file_updated:
  assumes "get_contents cl (calls s) dashboard_filename (branch s) = Some found"
    and "decode_utf8 py (decoded_content found) = Some content"
    and "update_file cl (calls s @ [GetContents dashboard_filename (branch s)])
           dashboard_filename (bar_chart @ '' Update performance metrics: '' @ timestamp)
           (content @ dashboard_row py timestamp metrics) (sha found) (branch s) = Some commit"
  shows "update_performance_dashboard py cl timestamp metrics s =
     (Inr (Some commit),
      s\<lparr>calls := calls s @
        [GetContents dashboard_filename (branch s),
         UpdateFile dashboard_filename (bar_chart @ '' Update performance metrics: '' @ timestamp)
           (content @ dashboard_row py timestamp metrics) (sha found) (branch s)]\<rparr>)"
  using assms
  by (simp add: update_performance_dashboard_def except_GithubException_eq except_all_eq
      seq_def request_def ret_def lift_def decode_def repo_defs split: option.splits)

text \<open>
  Claim C6 says that when the file exists the result is the prior content followed by one
  appended row. The inner handler of the source catches everything, although its comment
  speaks of the missing file only: when the file is read and the client refuses the update,
  the operation goes on to create the file with the header and the new row alone, and
  returns the commit of that creation.
\<close>

theorem refused_update_creates_file:
  "update_performance_dashboard sample_python
     (accepting_client\<lparr>update_file := \<lambda>tr p m c t b. None\<rparr>) ''2026-01-01T00:00:00''
     [(''token_usage'', IntValue 5)] initial_state =
     (Inr (Some ''1f3a5c7''),
      initial_state\<lparr>calls :=
        [GetContents dashboard_filename ''main'',
         UpdateFile dashboard_filename
           (bar_chart @ '' Update performance metrics: '' @ ''2026-01-01T00:00:00'')
           (''t,1,2,3,4\<newline>'' @ ''2026-01-01T00:00:00,0,5,0,0\<newline>'') ''9e8d7c6'' ''main'',
         CreateFile dashboard_filename (new_button @ '' Initialize performance dashboard'')
           (dashboard_header @ ''2026-01-01T00:00:00,0,5,0,0\<newline>'') ''main'']\<rparr>)"
proof -
  have five: "str_int 5 = ''5''"
    by (simp add: str_int_def str_nat.simps digit_char_def)
  have row: "dashboard_row sample_python ''2026-01-01T00:00:00'' [(''token_usage'', IntValue 5)] =
      ''2026-01-01T00:00:00,0,5,0,0\<newline>''"
    by (simp add: dashboard_row_def get_str_def sample_python_def five)
  have d: "decode sample_python t = Inr t" for t
    by (simp add: decode_def sample_python_def)
  show ?thesis
    by (simp add: update_performance_dashboard_def except_GithubException_eq except_all_eq
        seq_def request_def ret_def lift_def repo_defs row d accepting_client_def
        initial_state_def)
qed

subsection \<open>The steps of the pull request\<close>

lemma format_exn_not_GithubException: "format_exn e \<noteq> GithubException"
  by (cases e) simp_all

lemma get_1f_cases:
  "(\<exists>e. get_1f py m k = Inl e \<and> e \<noteq> GithubException) \<or> (\<exists>t. get_1f py m k = Inr t)"
  by (simp add: get_1f_def format_exn_not_GithubException split: option.splits sum.splits)

text \<open>
  Claim C7. The requests that \<^verbatim>\<open>create_optimization_pull_request\<close> issues are added
  to the record in the order of its six steps, every request but the last was accepted by
  the client, and the operation returns \<open>None\<close> exactly when the client refused the last
  request issued. In particular, when the branch tip is resolved and the creation of the
  branch reference fails, the operation returns \<open>None\<close> and has issued these two requests
  only: no file read, no file update, no pull request, no review request, and no request
  that would undo the first steps.
\<close>

theorem pull_request_aborts_at_failure:
  "(case create_optimization_pull_request py cl timestamp optimized_prompt
      performance_improvement s of
      (res, s') \<Rightarrow>
        calls s' = calls s @ new_calls s s' \<and>
        prefix (map method_of (new_calls s s')) pull_request_steps \<and>
        all_accepted cl (calls s) (butlast (new_calls s s')) \<and>
        (res = Inr None \<longleftrightarrow>
           new_calls s s' \<noteq> [] \<and>
           \<not> accepted cl (calls s @ butlast (new_calls s s')) (last (new_calls s s'))) \<and>
        (get_branch cl (calls s) (branch s) = Some tip \<and>
         create_git_ref cl (calls s @ [GetBranch (branch s)])
           (''refs/heads/'' @ branch_name timestamp) tip = None \<longrightarrow>
           res = Inr None \<and>
           new_calls s s' =
             [GetBranch (branch s), CreateGitRef (''refs/heads/'' @ branch_name timestamp) tip]))"
  (is "case ?run of (res, s') \<Rightarrow> ?P res s'")
proof (cases "get_branch cl (calls s) (branch s)")
  case None
  then have "?run = (Inr None, s\<lparr>calls := calls s @ [GetBranch (branch s)]\<rparr>)"
    by (simp add: create_optimization_pull_request_def step_simps)
  then show ?thesis
    using None by (auto simp: new_calls_append pull_request_steps_def)
next
  case b: (Some t1)
  let ?c1 = "GetBranch (branch s)"
  let ?c2 = "CreateGitRef (''refs/heads/'' @ branch_name timestamp) t1"
  show ?thesis
  proof (cases "create_git_ref cl (calls s @ [?c1]) (''refs/heads/'' @ branch_name timestamp) t1")
    case None
    then have "?run = (Inr None, s\<lparr>calls := calls s @ [?c1, ?c2]\<rparr>)"
      using b by (simp add: create_optimization_pull_request_def step_simps)
    then show ?thesis
      using b None by (auto simp: new_calls_append pull_request_steps_def)
  next
    case r: (Some u)
    let ?c3 = "GetContents prompt_path (branch_name timestamp)"
    show ?thesis
    proof (cases "get_contents cl (calls s @ [?c1, ?c2]) prompt_path (branch_name timestamp)")
      case None
      then have "?run = (Inr None, s\<lparr>calls := calls s @ [?c1, ?c2, ?c3]\<rparr>)"
        using b r by (simp add: create_optimization_pull_request_def step_simps)
      then show ?thesis
        using b r None by (auto simp: new_calls_append pull_request_steps_def)
    next
      case g: (Some found)
      let ?c4 = "UpdateFile (path found) (sparkles @ '' Auto-optimized prompt'') optimized_prompt
        (sha found) (branch_name timestamp)"
      show ?thesis
      proof (cases "update_file cl (calls s @ [?c1, ?c2, ?c3]) (path found)
          (sparkles @ '' Auto-optimized prompt'') optimized_prompt (sha found)
          (branch_name timestamp)")
        case None
        then have "?run = (Inr None, s\<lparr>calls := calls s @ [?c1, ?c2, ?c3, ?c4]\<rparr>)"
          using b r g by (simp add: create_optimization_pull_request_def step_simps)
        then show ?thesis
          using b r g None by (auto simp: new_calls_append pull_request_steps_def)
      next
        case w: (Some commit)
        from get_1f_cases [of py performance_improvement "''improvement''"]
        show ?thesis
        proof (elim disjE exE conjE)
          fix e
          assume f: "get_1f py performance_improvement ''improvement'' = Inl e"
            and e: "e \<noteq> GithubException"
          then have "?run = (Inl e, s\<lparr>calls := calls s @ [?c1, ?c2, ?c3, ?c4]\<rparr>)"
            using b r g w by (simp add: create_optimization_pull_request_def step_simps)
          then show ?thesis
            using b r g w e by (auto simp: new_calls_append pull_request_steps_def)
        next
          fix improvement
          assume f: "get_1f py performance_improvement ''improvement'' = Inr improvement"
          let ?c5 = "CreatePull (pull_title improvement) (pull_body py performance_improvement)
            (branch_name timestamp) (branch s)"
          show ?thesis
          proof (cases "create_pull cl (calls s @ [?c1, ?c2, ?c3, ?c4]) (pull_title improvement)
              (pull_body py performance_improvement) (branch_name timestamp) (branch s)")
            case None
            then have "?run = (Inr None, s\<lparr>calls := calls s @ [?c1, ?c2, ?c3, ?c4, ?c5]\<rparr>)"
              using b r g w f by (simp add: create_optimization_pull_request_def step_simps)
            then show ?thesis
              using b r g w None by (auto simp: new_calls_append pull_request_steps_def)
          next
            case p: (Some number)
            let ?c6 = "CreateReviewRequest number [''GilbertKwak'']"
            show ?thesis
            proof (cases "create_review_request cl (calls s @ [?c1, ?c2, ?c3, ?c4, ?c5]) number
                [''GilbertKwak'']")
              case None
              then have "?run =
                  (Inr None, s\<lparr>calls := calls s @ [?c1, ?c2, ?c3, ?c4, ?c5, ?c6]\<rparr>)"
                using b r g w f p by (simp add: create_optimization_pull_request_def step_simps)
              then show ?thesis
                using b r g w p None by (auto simp: new_calls_append pull_request_steps_def)
            next
              case (Some v)
              then have "?run =
                  (Inr (Some number), s\<lparr>calls := calls s @ [?c1, ?c2, ?c3, ?c4, ?c5, ?c6]\<rparr>)"
                using b r g w f p by (simp add: create_optimization_pull_request_def step_simps)
              then show ?thesis
                using b r g w p Some by (auto simp: new_calls_append pull_request_steps_def)
            qed
          qed
        qed
      qed
    qed
  qed
qed

theorem pull_request_aborts_at_failure_witness:
  "get_branch (accepting_client\<lparr>create_git_ref := \<lambda>tr r t. None\<rparr>) (calls initial_state)
     (branch initial_state) = Some ''c0ffee0'' \<and>
   create_git_ref (accepting_client\<lparr>create_git_ref := \<lambda>tr r t. None\<rparr>)
     (calls initial_state @ [GetBranch (branch initial_state)])
     (''refs/heads/'' @ branch_name ''20260101_000000'') ''c0ffee0'' = None \<and>
   fst (create_optimization_pull_request sample_python
          (accepting_client\<lparr>create_git_ref := \<lambda>tr r t. None\<rparr>) ''20260101_000000''
          ''prompt'' [] initial_state) = Inr None \<and>
   new_calls initial_state
     (snd (create_optimization_pull_request sample_python
          (accepting_client\<lparr>create_git_ref := \<lambda>tr r t. None\<rparr>) ''20260101_000000''
          ''prompt'' [] initial_state)) =
     [GetBranch ''main'', CreateGitRef (''refs/heads/'' @ branch_name ''20260101_000000'') ''c0ffee0'']"
proof -
  let ?cl = "accepting_client\<lparr>create_git_ref := \<lambda>tr r t. None\<rparr>"
  have b: "branch initial_state = ''main''"
    by (simp add: initial_state_def)
  have h1: "get_branch ?cl (calls initial_state) (branch initial_state) = Some ''c0ffee0''"
    by (simp add: accepting_client_def)
  have h2: "create_git_ref ?cl (calls initial_state @ [GetBranch (branch initial_state)])
     (''refs/heads/'' @ branch_name ''20260101_000000'') ''c0ffee0'' = None"
    by simp
  show ?thesis
    using h1 h2
      pull_request_aborts_at_failure [where py = sample_python and cl = ?cl
        and timestamp = "''20260101_000000''" and optimized_prompt = "''prompt''"
        and performance_improvement = "[]" and s = initial_state and tip = "''c0ffee0''"]
    by (simp add: case_prod_beta b)
qed

end
